theory Spec2Isabelle
  imports Main "HOL-Library.Char_ord" "HOL-Library.List_Lexorder"
begin

section \<open>Conventions of the embedding\<close>

text \<open>
  The repository is TypeScript. The embedding follows the source function by function and
  keeps its names. The conventions are:
  \<^item> numbers that the code treats as counts of minutes or milliseconds are \<open>int\<close>;
  \<^item> an ISO-8601 text that denotes an instant is represented by that instant, in
    milliseconds since the epoch (\<open>Iso ms\<close>); any text that \<open>new Date(text)\<close> turns into
    an Invalid Date is \<open>Unparsed text\<close>;
  \<^item> \<open>Date.now()\<close> is an explicit argument \<open>now\<close> of every operation that reads the clock;
  \<^item> an optional field is an \<open>option\<close>; the JavaScript test \<open>x || d\<close> on an optional
    number takes the default \<open>d\<close> for a missing value and for \<open>0\<close>, on an optional text
    for a missing value and for the empty text;
  \<^item> a thrown exception is the \<open>Inl\<close> branch of a sum.
\<close>

datatype tstamp = Iso int | Unparsed string

datatype js_error = RangeError | TypeError | Failure string

text \<open>\<open>new Date(text).getTime()\<close>: \<open>None\<close> stands for NaN (Invalid Date).\<close>

fun getTime :: "tstamp \<Rightarrow> int option" where
  "getTime (Iso ms) = Some ms"
| "getTime (Unparsed txt) = None"

text \<open>\<open>x || d\<close> on an optional number and on an optional text.\<close>

fun or_num :: "int option \<Rightarrow> int \<Rightarrow> int" where
  "or_num None d = d"
| "or_num (Some x) d = (if x = 0 then d else x)"

fun or_str :: "string option \<Rightarrow> string \<Rightarrow> string" where
  "or_str None d = d"
| "or_str (Some x) d = (if x = [] then d else x)"

text \<open>Decimal rendering of a number inside a template literal.\<close>

definition digit_char :: "nat \<Rightarrow> char" where
  "digit_char d = ''0123456789'' ! d"

fun digits_of :: "nat \<Rightarrow> string" where
  "digits_of n = (if n < 10 then [digit_char n] else digits_of (n div 10) @ [digit_char (n mod 10)])"

declare digits_of.simps [simp del]

definition show_int :: "int \<Rightarrow> string" where
  "show_int i = (if i < 0 then CHR ''-'' # digits_of (nat (- i)) else digits_of (nat i))"

text \<open>\<open>new Date(now).toISOString().split('T')[0]\<close>: the UTC calendar day of \<open>now\<close>,
  represented by its day number since the epoch.\<close>

definition utc_day :: "int \<Rightarrow> int" where
  "utc_day now = now div 86400000"

section \<open>Notification service (class NotificationService)\<close>

datatype notification_type = task_start | task_end | reminder | schedule_update | system

datatype action_type = snooze | complete | reschedule | cancel

datatype completion_status = completed | partially_completed | not_completed

text \<open>The \<open>payload?: any\<close> of an action, with the fields the service reads or writes.\<close>

record payload =
  minutes :: "int option"
  p_status :: "completion_status option"
  p_notes :: "string option"
  p_action :: "string option"

record NotificationAction =
  a_id :: string
  a_label :: string
  a_type :: action_type
  a_payload :: "payload option"

record NotificationConfig =
  n_id :: string
  n_type :: notification_type
  title :: string
  message :: string
  n_taskId :: "string option"
  scheduledTime :: int
  delivered :: bool
  actions :: "NotificationAction list option"

record TaskCompletionData =
  taskId :: string
  status :: completion_status
  actualDuration :: "int option"
  remainingMinutes :: "int option"
  c_notes :: "string option"
  reason :: "string option"

text \<open>The object literal built by \<open>moveToIncompleteSheet\<close>.\<close>

record incompleteTask =
  i_id :: string
  i_name :: string
  originalDuration :: int
  remainingDuration :: int
  i_priority :: string
  sourceDate :: int
  progress :: int
  i_notes :: string

text \<open>The object literal built by \<open>processCompletedTask\<close>.\<close>

record completionLog =
  l_taskId :: string
  completedAt :: int
  l_actualDuration :: "int option"
  l_notes :: "string option"

text \<open>
  A timer of the platform: \<open>setTimeout(callback, delay)\<close> called at \<open>armed_at\<close>. The
  callbacks the service arms either deliver a notification or close a browser
  notification.
\<close>

datatype timer_action = Deliver string | CloseBrowserNotification string

record timer =
  armed_at :: int
  delay_ms :: int
  action :: timer_action


text \<open>
  The state: the three private fields of the class (\<open>notifications\<close>, \<open>timers\<close>,
  \<open>subscribers\<close>) and the part of the environment the class acts on.
  \<^item> A subscriber callback is identified by a number (its function identity).
    \<open>on_notify c\<close> lists the callbacks whose unsubscribe closure the callback \<open>c\<close> calls
    when it is invoked; a callback that only displays the notification has \<open>[]\<close>.
  \<^item> \<open>pending\<close> holds the timers armed and neither fired nor cleared, by handle.
  \<^item> \<open>calls\<close> logs every invocation of a subscriber callback, \<open>broadcasts\<close> every run of
    \<open>notifySubscribers\<close>, \<open>custom_events\<close> every dispatched in-app event.
  \<^item> \<open>logs_store\<close> is the \<open>task-completion-logs\<close> item of localStorage; \<open>None\<close> when it
    holds something that is not a JSON array, so that \<open>storeCompletionData\<close> throws.
\<close>

record state =
  notifications :: "string \<rightharpoonup> NotificationConfig"
  timers :: "string \<rightharpoonup> nat"
  subscribers :: "nat list"
  on_notify :: "nat \<Rightarrow> nat list"
  pending :: "nat \<rightharpoonup> timer"
  next_handle :: nat
  calls :: "(nat \<times> string) list"
  broadcasts :: "string list"
  permission_granted :: bool
  browser_shown :: "string list"
  custom_events :: "string list"
  logs_store :: "completionLog list option"
  incomplete_created :: "incompleteTask list"

definition setTimeout :: "timer_action \<Rightarrow> int \<Rightarrow> int \<Rightarrow> state \<Rightarrow> nat \<times> state" where
  "setTimeout act delay now s =
     (next_handle s,
      s\<lparr>pending := (pending s)(next_handle s \<mapsto> \<lparr>armed_at = now, delay_ms = delay, action = act\<rparr>),
        next_handle := Suc (next_handle s)\<rparr>)"

definition clearTimeout :: "nat \<Rightarrow> state \<Rightarrow> state" where
  "clearTimeout h s = s\<lparr>pending := (pending s)(h := None)\<rparr>"

subsection \<open>Subscription management\<close>

text \<open>\<open>subscribe\<close> pushes the callback; the closure it returns removes the first
  occurrence of the callback (\<open>indexOf\<close>, then \<open>splice(index, 1)\<close>).\<close>

definition subscribe :: "nat \<Rightarrow> state \<Rightarrow> state" where
  "subscribe c s = s\<lparr>subscribers := subscribers s @ [c]\<rparr>"

definition unsubscribe :: "nat \<Rightarrow> state \<Rightarrow> state" where
  "unsubscribe c s = s\<lparr>subscribers := remove1 c (subscribers s)\<rparr>"

text \<open>Invoking the callback \<open>c\<close> on notification \<open>n\<close>: the call is logged, then the
  callback runs the unsubscribe closures it holds.\<close>

definition invoke :: "nat \<Rightarrow> string \<Rightarrow> state \<Rightarrow> state" where
  "invoke c n s = fold unsubscribe (on_notify s c) (s\<lparr>calls := calls s @ [(c, n)]\<rparr>)"

text \<open>
  \<open>Array.prototype.forEach\<close>: the length is read once, before the first call; the index
  \<open>k\<close> then runs up to it, and the callback is called at \<open>k\<close> only if the array still has
  an element there. The first argument counts the indices left.
\<close>

fun forEach_subscribers :: "nat \<Rightarrow> nat \<Rightarrow> string \<Rightarrow> state \<Rightarrow> state" where
  "forEach_subscribers 0 k n s = s"
| "forEach_subscribers (Suc r) k n s =
     forEach_subscribers r (Suc k) n
       (if k < length (subscribers s) then invoke (subscribers s ! k) n s else s)"

definition notifySubscribers :: "string \<Rightarrow> state \<Rightarrow> state" where
  "notifySubscribers n s =
     forEach_subscribers (length (subscribers s)) 0 n (s\<lparr>broadcasts := broadcasts s @ [n]\<rparr>)"

subsection \<open>Delivery\<close>

text \<open>The in-app event and, when the permission is granted, the browser notification with
  its timer that closes it after ten seconds (the constructor is taken to succeed).\<close>

definition showCustomNotification :: "string \<Rightarrow> state \<Rightarrow> state" where
  "showCustomNotification n s = s\<lparr>custom_events := custom_events s @ [n]\<rparr>"

definition showBrowserNotification :: "string \<Rightarrow> int \<Rightarrow> state \<Rightarrow> state" where
  "showBrowserNotification n now s =
     (if permission_granted s
      then snd (setTimeout (CloseBrowserNotification n) 10000 now
                  (s\<lparr>browser_shown := browser_shown s @ [n]\<rparr>))
      else s)"

definition deliverNotification :: "string \<Rightarrow> int \<Rightarrow> state \<Rightarrow> state" where
  "deliverNotification notificationId now s =
     (case notifications s notificationId of
        None \<Rightarrow> s
      | Some notification \<Rightarrow>
          if delivered notification then s
          else showCustomNotification notificationId
                 (showBrowserNotification notificationId now
                   (notifySubscribers notificationId
                     (s\<lparr>notifications :=
                          (notifications s)(notificationId \<mapsto> notification\<lparr>delivered := True\<rparr>)\<rparr>))))"

text \<open>A timer of the platform fires: it leaves the pending set and its callback runs.\<close>

definition fire :: "nat \<Rightarrow> int \<Rightarrow> state \<Rightarrow> state" where
  "fire h now s =
     (case pending s h of
        None \<Rightarrow> s
      | Some t \<Rightarrow>
          (case action t of
             Deliver n \<Rightarrow> deliverNotification n now (clearTimeout h s)
           | CloseBrowserNotification n \<Rightarrow> clearTimeout h s))"

subsection \<open>Arming\<close>

definition quoted :: "string \<Rightarrow> string" where
  "quoted txt = [CHR 0x22] @ txt @ [CHR 0x22]"

definition scheduleTaskStartNotification ::
  "string \<Rightarrow> string \<Rightarrow> tstamp \<Rightarrow> int \<Rightarrow> state \<Rightarrow> js_error + (string \<times> state)" where
  "scheduleTaskStartNotification task_id taskName startTime now s =
     (case getTime startTime of
        None \<Rightarrow> Inl RangeError
      | Some startDate \<Rightarrow>
          let notificationId = ''start_'' @ task_id;
              reminderTime = startDate - 5 * 60 * 1000;
              notification =
                \<lparr>n_id = notificationId, n_type = task_start, title = ''Task Starting Soon'',
                 message = quoted taskName @ '' starts in 5 minutes'',
                 n_taskId = Some task_id, scheduledTime = reminderTime, delivered = False,
                 actions = Some
                   [\<lparr>a_id = ''snooze'', a_label = ''Snooze 5min'', a_type = snooze,
                     a_payload = Some \<lparr>minutes = Some 5, p_status = None, p_notes = None,
                                        p_action = None\<rparr>\<rparr>,
                    \<lparr>a_id = ''start'', a_label = ''Start Now'', a_type = complete,
                     a_payload = Some \<lparr>minutes = None, p_status = None, p_notes = None,
                                        p_action = Some ''start''\<rparr>\<rparr>]\<rparr>;
              s1 = s\<lparr>notifications := (notifications s)(notificationId \<mapsto> notification)\<rparr>;
              timeUntilNotification = max 0 (reminderTime - now);
              (h, s2) = setTimeout (Deliver notificationId) timeUntilNotification now s1
          in Inr (notificationId, s2\<lparr>timers := (timers s2)(notificationId \<mapsto> h)\<rparr>))"

definition scheduleTaskEndNotification ::
  "string \<Rightarrow> string \<Rightarrow> tstamp \<Rightarrow> int \<Rightarrow> state \<Rightarrow> js_error + (string \<times> state)" where
  "scheduleTaskEndNotification task_id taskName endTime now s =
     (case getTime endTime of
        None \<Rightarrow> Inl RangeError
      | Some endDate \<Rightarrow>
          let notificationId = ''end_'' @ task_id;
              completion = (\<lambda>st. Some \<lparr>minutes = None, p_status = Some st, p_notes = None,
                                         p_action = None\<rparr>);
              notification =
                \<lparr>n_id = notificationId, n_type = task_end, title = ''Task Completed?'',
                 message = ''How did '' @ quoted taskName @ '' go?'',
                 n_taskId = Some task_id, scheduledTime = endDate, delivered = False,
                 actions = Some
                   [\<lparr>a_id = ''completed'', a_label = ''Completed'', a_type = complete,
                     a_payload = completion completed\<rparr>,
                    \<lparr>a_id = ''partial'', a_label = ''Partial'', a_type = complete,
                     a_payload = completion partially_completed\<rparr>,
                    \<lparr>a_id = ''not_completed'', a_label = ''Not Done'', a_type = complete,
                     a_payload = completion not_completed\<rparr>]\<rparr>;
              s1 = s\<lparr>notifications := (notifications s)(notificationId \<mapsto> notification)\<rparr>;
              timeUntilNotification = max 0 (endDate - now);
              (h, s2) = setTimeout (Deliver notificationId) timeUntilNotification now s1
          in Inr (notificationId, s2\<lparr>timers := (timers s2)(notificationId \<mapsto> h)\<rparr>))"

subsection \<open>Snooze\<close>

text \<open>A timer handle is a positive number or an object, so the test \<open>if (existingTimer)\<close>
  succeeds exactly when the timer map has an entry for the id.\<close>

definition snoozeNotification :: "string \<Rightarrow> int \<Rightarrow> int \<Rightarrow> state \<Rightarrow> state" where
  "snoozeNotification notificationId mins now s =
     (case notifications s notificationId of
        None \<Rightarrow> s
      | Some notification \<Rightarrow>
          let s1 = (case timers s notificationId of
                      Some existingTimer \<Rightarrow> clearTimeout existingTimer s
                    | None \<Rightarrow> s);
              s2 = s1\<lparr>notifications :=
                        (notifications s1)(notificationId \<mapsto>
                           notification\<lparr>delivered := False,
                                          scheduledTime := now + mins * 60 * 1000\<rparr>)\<rparr>;
              (h, s3) = setTimeout (Deliver notificationId) (mins * 60 * 1000) now s2
          in s3\<lparr>timers := (timers s3)(notificationId \<mapsto> h)\<rparr>)"

subsection \<open>Completion handling\<close>

definition storeCompletionData :: "completionLog \<Rightarrow> state \<Rightarrow> js_error + state" where
  "storeCompletionData completion s =
     (case logs_store s of
        None \<Rightarrow> Inl TypeError
      | Some existingLogs \<Rightarrow> Inr (s\<lparr>logs_store := Some (existingLogs @ [completion])\<rparr>))"

definition processCompletedTask :: "TaskCompletionData \<Rightarrow> int \<Rightarrow> state \<Rightarrow> js_error + state" where
  "processCompletedTask data now s =
     storeCompletionData
       \<lparr>l_taskId = taskId data, completedAt = now, l_actualDuration = actualDuration data,
        l_notes = c_notes data\<rparr> s"

definition moveToIncompleteSheet :: "TaskCompletionData \<Rightarrow> int \<Rightarrow> state \<Rightarrow> state" where
  "moveToIncompleteSheet data now s =
     s\<lparr>incomplete_created := incomplete_created s @
         [\<lparr>i_id = ''incomplete_'' @ show_int now,
           i_name = ''Incomplete: '' @ taskId data,
           originalDuration = or_num (actualDuration data) 60,
           remainingDuration = or_num (remainingMinutes data) 60,
           i_priority = ''medium'',
           sourceDate = utc_day now,
           progress = (if status data = partially_completed then 50 else 0),
           i_notes = (case c_notes data of
                        Some txt \<Rightarrow> if txt = [] then or_str (reason data) ''Task needs to be rescheduled''
                                    else txt
                      | None \<Rightarrow> or_str (reason data) ''Task needs to be rescheduled'')\<rparr>]\<rparr>"

definition processPartiallyCompletedTask :: "TaskCompletionData \<Rightarrow> int \<Rightarrow> state \<Rightarrow> state" where
  "processPartiallyCompletedTask data now s =
     (case remainingMinutes data of
        None \<Rightarrow> s
      | Some r \<Rightarrow> if r \<noteq> 0 \<and> r > 0 then moveToIncompleteSheet data now s else s)"

definition processIncompleteTask :: "TaskCompletionData \<Rightarrow> int \<Rightarrow> state \<Rightarrow> state" where
  "processIncompleteTask data now s = moveToIncompleteSheet data now s"

definition feedback_message :: "completion_status \<Rightarrow> string" where
  "feedback_message st =
     (case st of
        completed \<Rightarrow> ''Great job! Task completed successfully.''
      | partially_completed \<Rightarrow> ''Task partially completed. Remaining work scheduled for tomorrow.''
      | not_completed \<Rightarrow> ''Task moved to tomorrow's schedule.'')"

definition sendCompletionFeedback :: "TaskCompletionData \<Rightarrow> int \<Rightarrow> state \<Rightarrow> state" where
  "sendCompletionFeedback data now s =
     (let feedback =
            \<lparr>n_id = ''feedback_'' @ taskId data @ ''_'' @ show_int now, n_type = system,
             title = ''Task Update'', message = feedback_message (status data),
             n_taskId = Some (taskId data), scheduledTime = now, delivered = False,
             actions = None\<rparr>;
          (h, s1) = setTimeout (Deliver (n_id feedback)) 1000 now s
      in s1\<lparr>notifications := (notifications s1)(n_id feedback \<mapsto> feedback)\<rparr>)"

text \<open>The \<open>try\<close> block of \<open>handleTaskCompletion\<close>: an exception of the dispatch is caught
  and logged, and the feedback is then not sent.\<close>

definition handleTaskCompletion :: "TaskCompletionData \<Rightarrow> int \<Rightarrow> state \<Rightarrow> state" where
  "handleTaskCompletion completionData now s =
     (case (case status completionData of
              completed \<Rightarrow> processCompletedTask completionData now s
            | partially_completed \<Rightarrow> Inr (processPartiallyCompletedTask completionData now s)
            | not_completed \<Rightarrow> Inr (processIncompleteTask completionData now s)) of
        Inl e \<Rightarrow> s
      | Inr s1 \<Rightarrow> sendCompletionFeedback completionData now s1)"

subsection \<open>Notification actions\<close>

definition handleNotificationAction :: "string \<Rightarrow> string \<Rightarrow> int \<Rightarrow> state \<Rightarrow> state" where
  "handleNotificationAction notificationId actionId now s =
     (case notifications s notificationId of
        None \<Rightarrow> s
      | Some notification \<Rightarrow>
          (case (case actions notification of
                   None \<Rightarrow> None
                 | Some acts \<Rightarrow> find (\<lambda>a. a_id a = actionId) acts) of
             None \<Rightarrow> s
           | Some act \<Rightarrow>
               (case a_type act of
                  snooze \<Rightarrow>
                    snoozeNotification notificationId
                      (or_num (case a_payload act of None \<Rightarrow> None | Some p \<Rightarrow> minutes p) 5) now s
                | complete \<Rightarrow>
                    handleTaskCompletion
                      \<lparr>taskId = or_str (n_taskId notification) [],
                       status = (case a_payload act of
                                   None \<Rightarrow> completed
                                 | Some p \<Rightarrow> (case p_status p of None \<Rightarrow> completed | Some st \<Rightarrow> st)),
                       actualDuration = None, remainingMinutes = None,
                       c_notes = (case a_payload act of None \<Rightarrow> None | Some p \<Rightarrow> p_notes p),
                       reason = None\<rparr> now s
                | reschedule \<Rightarrow> s
                | cancel \<Rightarrow> s)))"

section \<open>Tasks, schedules and calendar events\<close>

datatype task_type = Fixed | Flexible | Incomplete | Recurring

datatype task_source = Sheet | User | Agent

datatype policy = Push | Split | Drop

datatype priority_label = Critical | High | Medium | Low

definition label_text :: "priority_label \<Rightarrow> string" where
  "label_text l =
     (case l of Critical \<Rightarrow> ''critical'' | High \<Rightarrow> ''high'' | Medium \<Rightarrow> ''medium'' | Low \<Rightarrow> ''low'')"

text \<open>
  The value held by \<open>priority_score\<close> at run time. The interface declares a number; the
  normalizer copies the row's \<open>priority\<close> into it, and the rows of the sheet service carry
  a label there. \<open>Label l\<close> is the text of the label, \<open>Label10 l\<close> that text followed by
  \<open>10\<close> (the result of \<open>label + 10\<close>), \<open>NaN\<close> the result of \<open>undefined + 10\<close>.
\<close>

datatype score = Num int | NaN | Label priority_label | Label10 priority_label

definition score_text :: "score \<Rightarrow> string option" where
  "score_text v =
     (case v of
        Label l \<Rightarrow> Some (label_text l)
      | Label10 l \<Rightarrow> Some (label_text l @ ''10'')
      | _ \<Rightarrow> None)"

text \<open>The relational operator \<open>a > b\<close> of JavaScript on two such values: two texts are
  compared as texts; otherwise both sides are converted to numbers, a label text
  converts to NaN, and a comparison with NaN is false.\<close>

definition js_greater :: "score \<Rightarrow> score \<Rightarrow> bool" where
  "js_greater a b =
     (case (score_text a, score_text b) of
        (Some x, Some y) \<Rightarrow> y < x
      | _ \<Rightarrow> (case (a, b) of (Num x, Num y) \<Rightarrow> y < x | _ \<Rightarrow> False))"

record Task =
  task_id :: string
  name :: string
  t_type :: task_type
  start :: tstamp
  duration_minutes :: int
  t_end :: tstamp
  priority_score :: score
  targets :: "string list"
  fixed :: bool
  t_notes :: "string option"
  source :: task_source
  reschedule_policy :: policy
  estimated_effort :: int
  progress_percent :: int

text \<open>A calendar date text \<open>YYYY-MM-DD\<close> is represented by its day number since the
  epoch; \<open>BadDate\<close> is a text that \<open>new Date\<close> rejects (it gives an Invalid Date), alone
  and followed by a time of day.\<close>

datatype datestr = Day int | BadDate string

record SchedulePayload =
  user_id :: "string option"
  date :: "datestr option"
  timezone :: "string option"
  tasks :: "Task list"
  generated_at :: "tstamp option"
  agent_version :: "string option"
  explainability :: string

record ScheduleCandidate =
  sc_id :: string
  schedule :: SchedulePayload
  sc_score :: int
  explanation :: string
  conflicts :: "string list"

text \<open>Times of day \<open>HH:MM\<close> are minutes since midnight.\<close>

record UserPreferences =
  sleep_window :: "int \<times> int"
  work_hours :: "int \<times> int"
  break_duration :: int
  commute_buffer :: int
  preferred_task_duration :: int
  max_consecutive_work :: int

definition userPreferences :: UserPreferences where
  "userPreferences =
     \<lparr>sleep_window = (22 * 60, 7 * 60), work_hours = (9 * 60, 18 * 60), break_duration = 15,
      commute_buffer = 30, preferred_task_duration = 90, max_consecutive_work = 180\<rparr>"

record CalendarEvent =
  ev_id :: string
  summary :: string
  ev_start :: tstamp
  ev_end :: tstamp
  ev_status :: string

text \<open>The \<open>ScheduleCandidate\<close> interface of the calendar service.\<close>

record CalendarSchedule =
  cs_user_id :: string
  cs_date :: datestr
  cs_timezone :: string
  cs_tasks :: "Task list"
  cs_generated_at :: tstamp
  cs_agent_version :: string
  cs_explainability :: string
  cs_priority_score :: int

section \<open>Conflict detection (GoogleCalendarService.detectConflicts)\<close>

text \<open>
  An entry of the result is a text built from the task's name, the event's summary and
  the locale rendering of the event's start and end; it is represented by these four
  values.
\<close>

record conflict =
  conflict_task :: string
  conflict_event :: string
  window_from :: int
  window_to :: int

text \<open>The test \<open>newStart < existingEnd && newEnd > existingStart\<close> on \<open>Date\<close> objects; a
  comparison with an Invalid Date is false.\<close>

definition overlaps :: "Task \<Rightarrow> CalendarEvent \<Rightarrow> bool" where
  "overlaps newTask existingEvent =
     (case (getTime (start newTask), getTime (t_end newTask),
            getTime (ev_start existingEvent), getTime (ev_end existingEvent)) of
        (Some newStart, Some newEnd, Some existingStart, Some existingEnd) \<Rightarrow>
          newStart < existingEnd \<and> newEnd > existingStart
      | _ \<Rightarrow> False)"

definition conflict_entry :: "Task \<Rightarrow> CalendarEvent \<Rightarrow> conflict" where
  "conflict_entry newTask existingEvent =
     \<lparr>conflict_task = name newTask, conflict_event = summary existingEvent,
      window_from = (case getTime (ev_start existingEvent) of Some t \<Rightarrow> t | None \<Rightarrow> 0),
      window_to = (case getTime (ev_end existingEvent) of Some t \<Rightarrow> t | None \<Rightarrow> 0)\<rparr>"

text \<open>The body of the inner and of the outer \<open>forEach\<close>, pushing onto \<open>conflicts\<close>.\<close>

definition check_event :: "Task \<Rightarrow> CalendarEvent \<Rightarrow> conflict list \<Rightarrow> conflict list" where
  "check_event newTask existingEvent acc =
     (if overlaps newTask existingEvent then acc @ [conflict_entry newTask existingEvent] else acc)"

definition check_task :: "CalendarEvent list \<Rightarrow> Task \<Rightarrow> conflict list \<Rightarrow> conflict list" where
  "check_task existingEvents newTask acc = fold (check_event newTask) existingEvents acc"

text \<open>\<open>existingEvents\<close> is what \<open>getCalendarEvents\<close> resolved to (\<open>[]\<close> when the request
  failed). A date that is not a date makes \<open>toISOString\<close> throw inside the \<open>try\<close>, and
  the \<open>catch\<close> returns \<open>[]\<close>.\<close>

definition detectConflicts :: "CalendarSchedule \<Rightarrow> CalendarEvent list \<Rightarrow> conflict list" where
  "detectConflicts newSchedule existingEvents =
     (case cs_date newSchedule of
        BadDate txt \<Rightarrow> []
      | Day d \<Rightarrow> fold (check_task existingEvents) (cs_tasks newSchedule) [])"

section \<open>Scheduler service (class SchedulerService)\<close>

subsection \<open>normalizeTasks\<close>

text \<open>
  The rows are typed \<open>any\<close>. A row record has the fields the normalizer reads. Two of them
  have more than one run-time shape: \<open>priority\<close> is a number or, in the rows of the sheet
  service, a label; \<open>targets\<close> is a comma-separated text or, in the rows of the sheet
  service, an array of texts. \<open>dueDate\<close> is carried by the rows of the sheet service and
  is not read.
\<close>

datatype priority_value = PNum int | PLabel priority_label

datatype targets_value = TText string | TArray "string list"

record course_row =
  day_of_week :: "string option"
  start_time :: "int option"
  end_time :: "int option"
  event_name :: "string option"

record priority_row =
  pr_name :: "string option"
  preferred_time :: "tstamp option"
  duration :: "int option"
  priority :: "priority_value option"
  pr_targets :: "targets_value option"
  difficulty :: "int option"
  dueDate :: "string option"

record incomplete_row =
  in_name :: "string option"
  remaining_duration :: "int option"
  in_priority :: "priority_value option"
  in_difficulty :: "int option"
  in_progress :: "int option"

text \<open>\<open>text.split(',')\<close>.\<close>

fun split_on :: "char \<Rightarrow> string \<Rightarrow> string list" where
  "split_on c [] = [[]]"
| "split_on c (x # xs) =
     (if x = c then [] # split_on c xs
      else (case split_on c xs of [] \<Rightarrow> [[x]] | w # ws \<Rightarrow> (x # w) # ws))"

text \<open>\<open>convertToISO\<close>: the UTC day of the clock, the time of day, and the fixed offset
  \<open>+05:30\<close>.\<close>

definition convertToISO :: "int \<Rightarrow> int \<Rightarrow> tstamp" where
  "convertToISO now timeString = Iso (utc_day now * 86400000 + timeString * 60000 - 330 * 60000)"

definition calculateDuration :: "int \<Rightarrow> int \<Rightarrow> int" where
  "calculateDuration startTime endTime = (endTime * 60000 - startTime * 60000) div (1000 * 60)"

definition course_task :: "int \<Rightarrow> nat \<times> course_row \<Rightarrow> Task option" where
  "course_task now ic =
     (case ic of (index, course) \<Rightarrow>
        (case (day_of_week course, start_time course, end_time course) of
           (Some d, Some st, Some en) \<Rightarrow>
             if d = [] then None
             else Some
               \<lparr>task_id = ''course_'' @ show_int (int index),
                name = or_str (event_name course) ''Class'',
                t_type = Fixed,
                start = convertToISO now st,
                duration_minutes = calculateDuration st en,
                t_end = convertToISO now en,
                priority_score = Num 100,
                targets = [''attend_class''],
                fixed = True,
                t_notes = None,
                source = Sheet,
                reschedule_policy = Drop,
                estimated_effort = 100,
                progress_percent = 0\<rparr>
         | _ \<Rightarrow> None))"

text \<open>\<open>task.priority || 75\<close> and \<open>task.priority + 10\<close>.\<close>

definition priority_or_75 :: "priority_value option \<Rightarrow> score" where
  "priority_or_75 p =
     (case p of
        None \<Rightarrow> Num 75
      | Some (PNum n) \<Rightarrow> if n = 0 then Num 75 else Num n
      | Some (PLabel l) \<Rightarrow> Label l)"

definition priority_plus_10 :: "priority_value option \<Rightarrow> score" where
  "priority_plus_10 p =
     (case p of
        None \<Rightarrow> NaN
      | Some (PNum n) \<Rightarrow> Num (n + 10)
      | Some (PLabel l) \<Rightarrow> Label10 l)"

text \<open>\<open>task.targets ? task.targets.split(',') : ['productivity']\<close>: an array is truthy and
  has no \<open>split\<close> method, so the call throws a TypeError.\<close>

definition split_targets :: "targets_value option \<Rightarrow> js_error + string list" where
  "split_targets t =
     (case t of
        None \<Rightarrow> Inr [''productivity'']
      | Some (TText txt) \<Rightarrow> if txt = [] then Inr [''productivity''] else Inr (split_on CHR '','' txt)
      | Some (TArray xs) \<Rightarrow> Inl TypeError)"

definition priority_task :: "nat \<times> priority_row \<Rightarrow> js_error + Task" where
  "priority_task it =
     (case it of (index, task) \<Rightarrow>
        (case split_targets (pr_targets task) of
           Inl e \<Rightarrow> Inl e
         | Inr tgs \<Rightarrow> Inr
             \<lparr>task_id = ''priority_'' @ show_int (int index),
              name = or_str (pr_name task) ''Priority Task'',
              t_type = Flexible,
              start = (case preferred_time task of
                         None \<Rightarrow> Unparsed ''09:00''
                       | Some (Unparsed txt) \<Rightarrow> Unparsed (if txt = [] then ''09:00'' else txt)
                       | Some (Iso ms) \<Rightarrow> Iso ms),
              duration_minutes = or_num (duration task) 60,
              t_end = Unparsed [],
              priority_score = priority_or_75 (priority task),
              targets = tgs,
              fixed = False,
              t_notes = None,
              source = Sheet,
              reschedule_policy = Push,
              estimated_effort = or_num (difficulty task) 50,
              progress_percent = 0\<rparr>))"

definition incomplete_task :: "nat \<times> incomplete_row \<Rightarrow> Task" where
  "incomplete_task it =
     (case it of (index, task) \<Rightarrow>
        \<lparr>task_id = ''incomplete_'' @ show_int (int index),
         name = or_str (in_name task) ''Incomplete Task'',
         t_type = Incomplete,
         start = Unparsed ''10:00'',
         duration_minutes = or_num (remaining_duration task) 30,
         t_end = Unparsed [],
         priority_score = priority_plus_10 (in_priority task),
         targets = [''completion''],
         fixed = False,
         t_notes = None,
         source = Sheet,
         reschedule_policy = Split,
         estimated_effort = or_num (in_difficulty task) 30,
         progress_percent = or_num (in_progress task) 0\<rparr>)"

text \<open>A \<open>forEach\<close> whose body may throw: the first exception ends the loop.\<close>

fun forEach_push :: "('a \<Rightarrow> js_error + 'b) \<Rightarrow> 'a list \<Rightarrow> 'b list \<Rightarrow> js_error + 'b list" where
  "forEach_push f [] acc = Inr acc"
| "forEach_push f (x # xs) acc =
     (case f x of Inl e \<Rightarrow> Inl e | Inr y \<Rightarrow> forEach_push f xs (acc @ [y]))"

definition normalizeTasks ::
  "int \<Rightarrow> course_row list \<Rightarrow> priority_row list \<Rightarrow> incomplete_row list \<Rightarrow> js_error + Task list" where
  "normalizeTasks now courseSchedule priorityTasks incompleteTasks =
     (case forEach_push priority_task (enumerate 0 priorityTasks)
             (List.map_filter (course_task now) (enumerate 0 courseSchedule)) of
        Inl e \<Rightarrow> Inl e
      | Inr acc \<Rightarrow> Inr (acc @ map incomplete_task (enumerate 0 incompleteTasks)))"

subsection \<open>The reasoning collaborator (class GeminiAIService)\<close>








subsection \<open>generateFallbackSchedule\<close>

text \<open>
  The comparator \<open>(a, b) => b.priority_score - a.priority_score\<close>: a difference that
  is NaN counts as \<open>0\<close>. \<open>Array.prototype.sort\<close> is stable; it is modelled by insertion
  from the right, which gives the one stable order whenever the comparator is consistent
  (all scores numbers). For other lists the language leaves the order to the
  implementation; what is proved below about the packer holds for every order.
\<close>

definition compare_priority :: "Task \<Rightarrow> Task \<Rightarrow> int" where
  "compare_priority a b =
     (case (priority_score b, priority_score a) of (Num y, Num x) \<Rightarrow> y - x | _ \<Rightarrow> 0)"

fun insert_by_priority :: "Task \<Rightarrow> Task list \<Rightarrow> Task list" where
  "insert_by_priority a [] = [a]"
| "insert_by_priority a (b # bs) =
     (if compare_priority a b \<le> 0 then a # b # bs else b # insert_by_priority a bs)"

definition sort_by_priority :: "Task list \<Rightarrow> Task list" where
  "sort_by_priority ts = foldr insert_by_priority ts []"

text \<open>The \<open>map\<close> over the sorted tasks, with the variable \<open>currentTime\<close> as first argument
  and the break in minutes as second. Times are unbounded integers here; the code throws
  a RangeError once a time leaves the range of \<open>Date\<close> (8.64e15 milliseconds either side
  of the epoch), which takes durations of thousands of centuries.\<close>

fun allocate :: "int \<Rightarrow> int \<Rightarrow> Task list \<Rightarrow> Task list" where
  "allocate currentTime brk [] = []"
| "allocate currentTime brk (task # rest) =
     task\<lparr>start := Iso currentTime, t_end := Iso (currentTime + duration_minutes task * 60000)\<rparr> #
     allocate (currentTime + duration_minutes task * 60000 + brk * 60000) brk rest"

text \<open>\<open>new Date(`${date}T${work_hours.start}`)\<close> reads the text as local time; \<open>tz\<close> is the
  offset of the local zone in minutes east of UTC.\<close>

definition local_datetime :: "int \<Rightarrow> datestr \<Rightarrow> int \<Rightarrow> int option" where
  "local_datetime tz d clock =
     (case d of Day n \<Rightarrow> Some (n * 86400000 + clock * 60000 - tz * 60000) | BadDate txt \<Rightarrow> None)"

definition generateFallbackSchedule ::
  "int \<Rightarrow> UserPreferences \<Rightarrow> Task list \<Rightarrow> datestr \<Rightarrow> string \<Rightarrow> int \<Rightarrow>
   js_error + ScheduleCandidate list" where
  "generateFallbackSchedule tz prefs tks dt userId now =
     (let sortedTasks = sort_by_priority tks;
          candidate = (\<lambda>scheduledTasks.
            \<lparr>sc_id = ''fallback_1'',
             schedule = \<lparr>user_id = Some userId, date = Some dt, timezone = Some ''Asia/Kolkata'',
                         tasks = scheduledTasks, generated_at = Some (Iso now),
                         agent_version = Some ''1.0.0'',
                         explainability = ''Fallback schedule: tasks sorted by priority''\<rparr>,
             sc_score = 60,
             explanation = ''Basic priority-based scheduling (AI unavailable)'',
             conflicts = []\<rparr>)
      in case local_datetime tz dt (fst (work_hours prefs)) of
           None \<Rightarrow> if sortedTasks = [] then Inr [candidate []] else Inl RangeError
         | Some currentTime \<Rightarrow>
             Inr [candidate (allocate currentTime (break_duration prefs) sortedTasks)])"

subsection \<open>generateScheduleCandidates and generateDailySchedule\<close>



section \<open>Premises and invariants used in the statements\<close>


text \<open>
  Every pending timer that would deliver the notification \<open>nid\<close> is the one the timer map
  records for \<open>nid\<close>. Arming an id once establishes this; arming it again without a
  snooze in between breaks it, since the map then forgets the first timer.
\<close>

definition only_recorded_timer :: "state \<Rightarrow> string \<Rightarrow> bool" where
  "only_recorded_timer s nid =
     (\<forall>h t. pending s h = Some t \<and> action t = Deliver nid \<longrightarrow> timers s nid = Some h)"

text \<open>The overlap test of the specification, \<open>start_a < end_b AND end_a > start_b\<close>, on two
  tasks with resolved times.\<close>

definition spec_interval_overlap :: "Task \<Rightarrow> Task \<Rightarrow> bool" where
  "spec_interval_overlap a b =
     (case (getTime (start a), getTime (t_end a), getTime (start b), getTime (t_end b)) of
        (Some start_a, Some end_a, Some start_b, Some end_b) \<Rightarrow> start_a < end_b \<and> end_a > start_b
      | _ \<Rightarrow> False)"

section \<open>Example inputs\<close>

text \<open>The service as constructed, with the completion log empty and no permission for
  browser notifications.\<close>

definition initial :: state where
  "initial = \<lparr>notifications = Map.empty, timers = Map.empty, subscribers = [],
     on_notify = (\<lambda>c. []), pending = Map.empty, next_handle = 1, calls = [], broadcasts = [],
     permission_granted = False, browser_shown = [], custom_events = [],
     logs_store = Some [], incomplete_created = []\<rparr>"

text \<open>Two listeners subscribe, then task \<open>t1\<close> (start at 900 s) is armed at time 0.\<close>

definition armed_example :: state where
  "armed_example =
     (case scheduleTaskStartNotification ''t1'' ''Algorithms'' (Iso 900000) 0
             (subscribe 7 (subscribe 3 initial)) of
        Inr (nid, s) \<Rightarrow> s
      | Inl e \<Rightarrow> initial)"


text \<open>Two listeners; the first calls its own unsubscribe closure when it is notified.\<close>

definition self_removing_example :: state where
  "self_removing_example =
     (subscribe 2 (subscribe 1 initial))\<lparr>on_notify := (\<lambda>c. if c = 1 then [1] else [])\<rparr>"

definition partial_report_example :: TaskCompletionData where
  "partial_report_example =
     \<lparr>taskId = ''t1'', status = partially_completed, actualDuration = None,
      remainingMinutes = Some 30, c_notes = None, reason = None\<rparr>"

text \<open>A lecture from 14:00 to 15:30 and an essay of two hours, on day 20000 in the zone
  \<open>+05:30\<close>; and the schedule the fallback makes of them.\<close>

definition lecture_example :: Task where
  "lecture_example =
     \<lparr>task_id = ''course_0'', name = ''Algorithms'', t_type = Fixed,
      start = Iso 1728030600000, duration_minutes = 90, t_end = Iso 1728036000000,
      priority_score = Num 100, targets = [''attend_class''], fixed = True, t_notes = None,
      source = Sheet, reschedule_policy = Drop, estimated_effort = 100, progress_percent = 0\<rparr>"



text \<open>Two tasks that overlap each other, and a calendar event that overlaps both.\<close>

definition seminar_example :: Task where
  "seminar_example =
     \<lparr>task_id = ''priority_0'', name = ''Seminar'', t_type = Flexible,
      start = Iso 0, duration_minutes = 60, t_end = Iso 3600000,
      priority_score = Num 80, targets = [''productivity''], fixed = False, t_notes = None,
      source = Sheet, reschedule_policy = Push, estimated_effort = 50, progress_percent = 0\<rparr>"

definition lab_example :: Task where
  "lab_example =
     \<lparr>task_id = ''priority_1'', name = ''Lab'', t_type = Flexible,
      start = Iso 1800000, duration_minutes = 60, t_end = Iso 5400000,
      priority_score = Num 70, targets = [''productivity''], fixed = False, t_notes = None,
      source = Sheet, reschedule_policy = Push, estimated_effort = 50, progress_percent = 0\<rparr>"

definition meeting_example :: CalendarEvent where
  "meeting_example =
     \<lparr>ev_id = ''e1'', summary = ''Meeting'', ev_start = Iso 3000000, ev_end = Iso 9000000,
      ev_status = ''confirmed''\<rparr>"

definition clashing_schedule :: CalendarSchedule where
  "clashing_schedule =
     \<lparr>cs_user_id = ''u1'', cs_date = Day 0, cs_timezone = ''Asia/Kolkata'',
      cs_tasks = [seminar_example, lab_example], cs_generated_at = Iso 0,
      cs_agent_version = ''1.0'', cs_explainability = [], cs_priority_score = 75\<rparr>"

text \<open>A row of the priority sheet, with its priority and its targets left open.\<close>

definition revision_row :: "priority_value \<Rightarrow> targets_value \<Rightarrow> priority_row" where
  "revision_row p t =
     \<lparr>pr_name = Some ''Revision'', preferred_time = None, duration = Some 60,
      priority = Some p, pr_targets = Some t, difficulty = None,
      dueDate = Some ''2025-09-20''\<rparr>"






section \<open>Notification service: delivery, snooze, unknown ids\<close>

subsection \<open>What a broadcast touches\<close>

lemma unsubscribe_fields [simp]:
  "notifications (unsubscribe c s) = notifications s"
  "timers (unsubscribe c s) = timers s"
  "pending (unsubscribe c s) = pending s"
  "broadcasts (unsubscribe c s) = broadcasts s"
  "calls (unsubscribe c s) = calls s"
  "on_notify (unsubscribe c s) = on_notify s"
  by (simp_all add: unsubscribe_def)

lemma fold_unsubscribe_fields [simp]:
  "notifications (fold unsubscribe cs s) = notifications s"
  "broadcasts (fold unsubscribe cs s) = broadcasts s"
  "calls (fold unsubscribe cs s) = calls s"
  "on_notify (fold unsubscribe cs s) = on_notify s"
  by (induction cs arbitrary: s; simp)+

lemma invoke_fields [simp]:
  "notifications (invoke c n s) = notifications s"
  "broadcasts (invoke c n s) = broadcasts s"
  "on_notify (invoke c n s) = on_notify s"
  "calls (invoke c n s) = calls s @ [(c, n)]"
  by (simp_all add: invoke_def)

lemma forEach_fields [simp]:
  "notifications (forEach_subscribers r k n s) = notifications s"
  "broadcasts (forEach_subscribers r k n s) = broadcasts s"
  by (induction r arbitrary: k s; simp)+

lemma notifySubscribers_fields [simp]:
  "notifications (notifySubscribers n s) = notifications s"
  "broadcasts (notifySubscribers n s) = broadcasts s @ [n]"
  by (simp_all add: notifySubscribers_def)

lemma deliver_fields:
  assumes "notifications s nid = Some n" "\<not> delivered n"
  shows "notifications (deliverNotification nid now s) = (notifications s)(nid \<mapsto> n\<lparr>delivered := True\<rparr>)"
    and "broadcasts (deliverNotification nid now s) = broadcasts s @ [nid]"
  using assms
  by (simp_all add: deliverNotification_def showCustomNotification_def showBrowserNotification_def setTimeout_def)

lemma passive_invoke:
  "on_notify s c = [] \<Longrightarrow> invoke c n s = s\<lparr>calls := calls s @ [(c, n)]\<rparr>"
  by (simp add: invoke_def)

lemma forEach_passive:
  assumes "\<forall>c. on_notify s c = []" "k + r \<le> length (subscribers s)"
  shows "forEach_subscribers r k n s =
           s\<lparr>calls := calls s @ map (\<lambda>c. (c, n)) (take r (drop k (subscribers s)))\<rparr>"
  using assms
proof (induction r arbitrary: k s)
  case 0
  then show ?case by simp
next
  case (Suc r)
  let ?s1 = "s\<lparr>calls := calls s @ [(subscribers s ! k, n)]\<rparr>"
  from Suc.prems have k: "k < length (subscribers s)" by simp
  have step: "forEach_subscribers (Suc r) k n s = forEach_subscribers r (Suc k) n ?s1"
    using k Suc.prems(1) by (simp add: passive_invoke)
  have "forEach_subscribers r (Suc k) n ?s1 =
          ?s1\<lparr>calls := calls ?s1 @ map (\<lambda>c. (c, n)) (take r (drop (Suc k) (subscribers ?s1)))\<rparr>"
    using Suc.prems by (intro Suc.IH) simp_all
  moreover have "take (Suc r) (drop k (subscribers s)) =
                   subscribers s ! k # take r (drop (Suc k) (subscribers s))"
    using k by (simp add: Cons_nth_drop_Suc [symmetric])
  ultimately show ?case using step by simp
qed

lemma notifySubscribers_passive:
  assumes "\<forall>c. on_notify s c = []"
  shows "calls (notifySubscribers n s) = calls s @ map (\<lambda>c. (c, n)) (subscribers s)"
  using assms by (simp add: notifySubscribers_def forEach_passive)

lemma deliver_calls_passive:
  assumes "notifications s nid = Some n" "\<not> delivered n" "\<forall>c. on_notify s c = []"
  shows "calls (deliverNotification nid now s) = calls s @ map (\<lambda>c. (c, nid)) (subscribers s)"
  using assms
  by (simp add: deliverNotification_def showCustomNotification_def showBrowserNotification_def
      setTimeout_def notifySubscribers_passive)

lemma fold_unsubscribe_platform [simp]:
  "pending (fold unsubscribe cs s) = pending s"
  "next_handle (fold unsubscribe cs s) = next_handle s"
  "permission_granted (fold unsubscribe cs s) = permission_granted s"
  by (induction cs arbitrary: s; simp add: unsubscribe_def)+

lemma forEach_platform [simp]:
  "pending (forEach_subscribers r k n s) = pending s"
  "next_handle (forEach_subscribers r k n s) = next_handle s"
  "permission_granted (forEach_subscribers r k n s) = permission_granted s"
  by (induction r arbitrary: k s; simp add: invoke_def)+

lemma pending_deliver:
  assumes "h < next_handle s"
  shows "pending (deliverNotification nid now s) h = pending s h"
  using assms
  by (auto simp: deliverNotification_def showCustomNotification_def showBrowserNotification_def
      setTimeout_def notifySubscribers_def split: option.splits)

lemma fire_once:
  assumes "notifications s nid = Some n" "\<not> delivered n"
      and "pending s h = Some t" "action t = Deliver nid" "h < next_handle s"
  shows "broadcasts (fire h now s) = broadcasts s @ [nid]"
    and "fire h later (fire h now s) = fire h now s"
proof -
  have f: "fire h now s = deliverNotification nid now (clearTimeout h s)"
    using assms by (simp add: fire_def)
  have c: "notifications (clearTimeout h s) nid = Some n"
    "broadcasts (clearTimeout h s) = broadcasts s"
    "next_handle (clearTimeout h s) = next_handle s"
    using assms by (simp_all add: clearTimeout_def)
  show "broadcasts (fire h now s) = broadcasts s @ [nid]"
    using f c assms(2) by (simp add: deliver_fields)
  have "pending (fire h now s) h = None"
    using f c assms(5) by (simp add: pending_deliver clearTimeout_def)
  then show "fire h later (fire h now s) = fire h now s"
    by (simp add: fire_def)
qed

lemma deliver_delivered:
  "notifications s nid = Some n \<Longrightarrow> delivered n \<Longrightarrow> deliverNotification nid now s = s"
  by (simp add: deliverNotification_def)

lemma armed_example_simps:
  "notifications armed_example ''start_t1'' =
     Some \<lparr>n_id = ''start_t1'', n_type = task_start, title = ''Task Starting Soon'',
           message = quoted ''Algorithms'' @ '' starts in 5 minutes'',
           n_taskId = Some ''t1'', scheduledTime = 600000, delivered = False,
           actions = Some
             [\<lparr>a_id = ''snooze'', a_label = ''Snooze 5min'', a_type = snooze,
               a_payload = Some \<lparr>minutes = Some 5, p_status = None, p_notes = None,
                                  p_action = None\<rparr>\<rparr>,
              \<lparr>a_id = ''start'', a_label = ''Start Now'', a_type = complete,
               a_payload = Some \<lparr>minutes = None, p_status = None, p_notes = None,
                                  p_action = Some ''start''\<rparr>\<rparr>]\<rparr>"
  "timers armed_example ''start_t1'' = Some 1"
  "next_handle armed_example = 2"
  "subscribers armed_example = [3, 7]"
  "calls armed_example = []"
  "broadcasts armed_example = []"
  "on_notify armed_example = (\<lambda>c. [])"
  "pending armed_example 1 = Some \<lparr>armed_at = 0, delay_ms = 600000, action = Deliver ''start_t1''\<rparr>"
  by (simp_all add: armed_example_def scheduleTaskStartNotification_def initial_def subscribe_def
      setTimeout_def Let_def)

subsection \<open>Delivery happens once per arm cycle\<close>

text \<open>
  Claim C5. For a registered notification: delivering it when it is already delivered
  changes nothing; delivering it when it is pending sets \<open>delivered\<close>, runs exactly one
  broadcast, and any later delivery of the same id changes nothing more. When the
  listeners only display the notification, the broadcast calls each subscribed listener
  once, in subscription order. When the timer armed for a pending notification fires,
  there is exactly one broadcast, and the timer cannot fire again. (A snooze resets
  \<open>delivered\<close> and so opens a new cycle, see claim C7.)
\<close>

theorem deliverNotification_at_most_once:
  assumes "notifications s nid = Some n"
  shows "(delivered n \<longrightarrow> deliverNotification nid now s = s) \<and>
         (\<not> delivered n \<longrightarrow>
            notifications (deliverNotification nid now s) nid = Some (n\<lparr>delivered := True\<rparr>) \<and>
            broadcasts (deliverNotification nid now s) = broadcasts s @ [nid] \<and>
            deliverNotification nid later (deliverNotification nid now s) =
              deliverNotification nid now s \<and>
            ((\<forall>c. on_notify s c = []) \<longrightarrow>
               calls (deliverNotification nid now s) =
                 calls s @ map (\<lambda>c. (c, nid)) (subscribers s)) \<and>
            (\<forall>h t. pending s h = Some t \<and> action t = Deliver nid \<and> h < next_handle s \<longrightarrow>
               broadcasts (fire h now s) = broadcasts s @ [nid] \<and>
               fire h later (fire h now s) = fire h now s))"
proof (intro conjI impI allI)
  assume "delivered n"
  with assms show "deliverNotification nid now s = s" by (rule deliver_delivered)
next
  assume nd: "\<not> delivered n"
  show reg: "notifications (deliverNotification nid now s) nid = Some (n\<lparr>delivered := True\<rparr>)"
    using assms nd by (simp add: deliver_fields)
  show "broadcasts (deliverNotification nid now s) = broadcasts s @ [nid]"
    using assms nd by (rule deliver_fields)
  show "deliverNotification nid later (deliverNotification nid now s) =
          deliverNotification nid now s"
    using reg by (intro deliver_delivered [where n = "n\<lparr>delivered := True\<rparr>"]) simp_all
next
  assume "\<not> delivered n" "\<forall>c. on_notify s c = []"
  with assms show "calls (deliverNotification nid now s) =
                     calls s @ map (\<lambda>c. (c, nid)) (subscribers s)"
    by (rule deliver_calls_passive)
next
  fix h t
  assume nd: "\<not> delivered n"
    and armed: "pending s h = Some t \<and> action t = Deliver nid \<and> h < next_handle s"
  with assms show "broadcasts (fire h now s) = broadcasts s @ [nid]"
    by (intro fire_once(1) [where n = n and t = t]) simp_all
  from assms nd armed show "fire h later (fire h now s) = fire h now s"
    by (intro fire_once(2) [where n = n and t = t and nid = nid]) simp_all
qed

text \<open>Witness for C5: the armed example, delivered at its reminder time and once more.\<close>

theorem deliverNotification_at_most_once_witness:
  "broadcasts (deliverNotification ''start_t1'' 600000 armed_example) = [''start_t1''] \<and>
   calls (deliverNotification ''start_t1'' 600000 armed_example) =
     [(3, ''start_t1''), (7, ''start_t1'')] \<and>
   deliverNotification ''start_t1'' 600001 (deliverNotification ''start_t1'' 600000 armed_example) =
     deliverNotification ''start_t1'' 600000 armed_example \<and>
   broadcasts (fire 1 600000 armed_example) = [''start_t1''] \<and>
   fire 1 600001 (fire 1 600000 armed_example) = fire 1 600000 armed_example"
proof -
  have "pending armed_example 1 =
          Some \<lparr>armed_at = 0, delay_ms = 600000, action = Deliver ''start_t1''\<rparr> \<and>
        action \<lparr>armed_at = 0, delay_ms = 600000, action = Deliver ''start_t1''\<rparr> =
          Deliver ''start_t1'' \<and>
        1 < next_handle armed_example"
    using armed_example_simps by simp
  with deliverNotification_at_most_once [OF armed_example_simps(1), of 600000 600001]
  show ?thesis using armed_example_simps by simp
qed

subsection \<open>Snooze\<close>



lemma end_armed_once_only_recorded_timer:
  assumes "\<forall>h t. pending s h = Some t \<longrightarrow> action t \<noteq> Deliver (''end_'' @ task)"
      and "scheduleTaskEndNotification task taskName endTime now s = Inr (nid, s')"
  shows "only_recorded_timer s' nid"
  using assms
  by (auto simp: scheduleTaskEndNotification_def only_recorded_timer_def setTimeout_def Let_def
      split: option.splits if_splits)

lemma deliver_pending_delivery:
  assumes "pending (deliverNotification other now s) h = Some t" "action t = Deliver nid"
  shows "pending s h = Some t"
  using assms
  by (auto simp: deliverNotification_def showCustomNotification_def showBrowserNotification_def
      setTimeout_def notifySubscribers_def split: option.splits if_splits)

lemma deliver_timers [simp]: "timers (deliverNotification other now s) = timers s"
proof -
  have a: "timers (fold unsubscribe cs s') = timers s'" for cs s'
    by (induction cs arbitrary: s') simp_all
  have b: "timers (forEach_subscribers r k n s') = timers s'" for r k n s'
    by (induction r arbitrary: k s') (simp_all add: invoke_def a)
  show ?thesis
    by (simp add: deliverNotification_def showCustomNotification_def showBrowserNotification_def
        setTimeout_def notifySubscribers_def b split: option.splits)
qed

lemma deliver_keeps_only_recorded_timer:
  "only_recorded_timer s nid \<Longrightarrow> only_recorded_timer (deliverNotification other now s) nid"
  unfolding only_recorded_timer_def
  by (metis deliver_pending_delivery deliver_timers)

lemma fire_keeps_only_recorded_timer:
  assumes "only_recorded_timer s nid"
  shows "only_recorded_timer (fire h now s) nid"
proof -
  have "only_recorded_timer (clearTimeout h s) nid"
    using assms by (auto simp: only_recorded_timer_def clearTimeout_def split: if_splits)
  then show ?thesis
    using assms
    by (auto simp: fire_def deliver_keeps_only_recorded_timer
        split: option.splits timer_action.splits)
qed




subsection \<open>Unknown ids\<close>

text \<open>
  Claim C10. For an id that is not in the registry, \<open>handleNotificationAction\<close>,
  \<open>snoozeNotification\<close> and \<open>deliverNotification\<close> return the state they were given: the
  registry, the timer map, the subscriber list and everything else are unchanged. The
  same holds for \<open>handleNotificationAction\<close> on a registered notification when no action
  of the notification has the given action id.
\<close>

theorem unknown_ids_are_ignored:
  "(notifications s nid = None \<longrightarrow>
      handleNotificationAction nid aid now s = s \<and>
      snoozeNotification nid m now s = s \<and>
      deliverNotification nid now s = s) \<and>
   (\<forall>n. notifications s nid = Some n \<and>
        aid \<notin> set (map a_id (case actions n of None \<Rightarrow> [] | Some acts \<Rightarrow> acts)) \<longrightarrow>
        handleNotificationAction nid aid now s = s)"
proof (intro conjI impI allI)
  assume "notifications s nid = None"
  then show "handleNotificationAction nid aid now s = s"
    and "snoozeNotification nid m now s = s"
    and "deliverNotification nid now s = s"
    by (simp_all add: handleNotificationAction_def snoozeNotification_def deliverNotification_def)
next
  fix n
  assume a: "notifications s nid = Some n \<and>
        aid \<notin> set (map a_id (case actions n of None \<Rightarrow> [] | Some acts \<Rightarrow> acts))"
  have "(case actions n of None \<Rightarrow> None | Some acts \<Rightarrow> find (\<lambda>a. a_id a = aid) acts) = None"
    using a by (auto simp: find_None_iff split: option.splits)
  with a show "handleNotificationAction nid aid now s = s"
    by (simp add: handleNotificationAction_def)
qed

text \<open>Witness for C10: an id that was never armed, and an action id the start
  notification does not have.\<close>

theorem unknown_ids_are_ignored_witness:
  "handleNotificationAction ''end_t9'' ''completed'' 5 armed_example = armed_example \<and>
   snoozeNotification ''end_t9'' 5 5 armed_example = armed_example \<and>
   deliverNotification ''end_t9'' 5 armed_example = armed_example \<and>
   handleNotificationAction ''start_t1'' ''dismiss'' 5 armed_example = armed_example"
proof -
  have absent: "notifications armed_example ''end_t9'' = None"
    by (simp add: armed_example_def scheduleTaskStartNotification_def initial_def subscribe_def
        setTimeout_def Let_def)
  have first: "handleNotificationAction ''end_t9'' ''completed'' 5 armed_example = armed_example \<and>
      snoozeNotification ''end_t9'' 5 5 armed_example = armed_example \<and>
      deliverNotification ''end_t9'' 5 armed_example = armed_example"
    using unknown_ids_are_ignored [of armed_example "''end_t9''" "''completed''" 5 5] absent
    by blast
  have "notifications armed_example ''start_t1'' = Some N \<and>
          ''dismiss'' \<notin> set (map a_id (case actions N of None \<Rightarrow> [] | Some acts \<Rightarrow> acts)) \<longrightarrow>
        handleNotificationAction ''start_t1'' ''dismiss'' 5 armed_example = armed_example" for N
    using unknown_ids_are_ignored [of armed_example "''start_t1''" "''dismiss''" 5 5] by blast
  from this [where N = "the (notifications armed_example ''start_t1'')"]
  have "handleNotificationAction ''start_t1'' ''dismiss'' 5 armed_example = armed_example"
    by (simp add: armed_example_simps)
  with first show ?thesis by simp
qed

subsection \<open>Unsubscribing during a broadcast\<close>

text \<open>
  Claim C9 says that a listener that unregisters during a broadcast makes the broadcast
  neither throw nor skip a listener that was subscribed when it began. The broadcast
  does not throw, but it skips: with listeners 1 and 2 subscribed and listener 1
  unsubscribing itself when notified, \<open>splice\<close> moves listener 2 to index 0 while
  \<open>forEach\<close> goes on to index 1, and listener 2 is never called.
\<close>

theorem unsubscribe_during_broadcast_skips_next:
  "subscribers self_removing_example = [1, 2] \<and>
   calls (notifySubscribers ''start_t1'' self_removing_example) = [(1, ''start_t1'')] \<and>
   subscribers (notifySubscribers ''start_t1'' self_removing_example) = [2]"
  by (simp add: self_removing_example_def notifySubscribers_def initial_def invoke_def
      unsubscribe_def subscribe_def)

section \<open>Completion handling\<close>

lemma sendCompletionFeedback_fields [simp]:
  "incomplete_created (sendCompletionFeedback data now s) = incomplete_created s"
  "logs_store (sendCompletionFeedback data now s) = logs_store s"
  by (simp_all add: sendCompletionFeedback_def setTimeout_def Let_def)

text \<open>
  Claim C6 as stated fails twice. A partial report with 30 minutes remaining and no
  actual duration gives a record whose original duration is 60, not 30. A partial report
  with no remaining minutes is not handled as a completed one: the completed report
  appends a completion log, the partial one appends none.
\<close>

theorem partial_completion_counterexample:
  "remainingMinutes partial_report_example = Some 30 \<and>
   actualDuration partial_report_example = None \<and>
   map originalDuration
     (incomplete_created (handleTaskCompletion partial_report_example 0 initial)) = [60] \<and>
   map remainingDuration
     (incomplete_created (handleTaskCompletion partial_report_example 0 initial)) = [30] \<and>
   logs_store (handleTaskCompletion (partial_report_example\<lparr>remainingMinutes := None\<rparr>) 0 initial)
     = Some [] \<and>
   logs_store (handleTaskCompletion
                 (partial_report_example\<lparr>remainingMinutes := None, status := completed\<rparr>) 0 initial)
     = Some [\<lparr>l_taskId = ''t1'', completedAt = 0, l_actualDuration = None, l_notes = None\<rparr>]"
  by (simp add: handleTaskCompletion_def processPartiallyCompletedTask_def
      processCompletedTask_def storeCompletionData_def moveToIncompleteSheet_def
      partial_report_example_def initial_def)

text \<open>
  Claim C6, amended. For a report with status \<open>partially_completed\<close> and remaining minutes
  \<open>R > 0\<close>, the handler constructs one incomplete-task record with remaining duration
  \<open>R\<close>, original duration the actual duration when present and not zero and 60
  otherwise, progress 50 and source date the UTC day of the clock. When the remaining
  minutes are absent, zero or negative, no record is constructed and no completion is
  logged.
\<close>

theorem partial_completion_migrates:
  assumes "status data = partially_completed"
  shows "(\<forall>R. remainingMinutes data = Some R \<and> 0 < R \<longrightarrow>
            (\<exists>r. incomplete_created (handleTaskCompletion data now s) = incomplete_created s @ [r] \<and>
                 remainingDuration r = R \<and>
                 originalDuration r =
                   (case actualDuration data of
                      None \<Rightarrow> 60
                    | Some a \<Rightarrow> if a = 0 then 60 else a) \<and>
                 progress r = 50 \<and>
                 sourceDate r = utc_day now)) \<and>
         (remainingMinutes data = None \<or> (\<exists>r. remainingMinutes data = Some r \<and> r \<le> 0) \<longrightarrow>
            incomplete_created (handleTaskCompletion data now s) = incomplete_created s \<and>
            logs_store (handleTaskCompletion data now s) = logs_store s)"
  using assms
  by (auto simp: handleTaskCompletion_def processPartiallyCompletedTask_def
      moveToIncompleteSheet_def split: option.splits)

text \<open>Witness for C6: 30 minutes remaining of a task that took 90, reported on day 1;
  and a report with zero minutes remaining.\<close>

theorem partial_completion_migrates_witness:
  "map remainingDuration
     (incomplete_created
        (handleTaskCompletion (partial_report_example\<lparr>actualDuration := Some 90\<rparr>) 86400000 initial))
     = [30] \<and>
   map originalDuration
     (incomplete_created
        (handleTaskCompletion (partial_report_example\<lparr>actualDuration := Some 90\<rparr>) 86400000 initial))
     = [90] \<and>
   map sourceDate
     (incomplete_created
        (handleTaskCompletion (partial_report_example\<lparr>actualDuration := Some 90\<rparr>) 86400000 initial))
     = [1] \<and>
   incomplete_created
     (handleTaskCompletion (partial_report_example\<lparr>remainingMinutes := Some 0\<rparr>) 86400000 initial)
     = []"
  using partial_completion_migrates
          [of "partial_report_example\<lparr>actualDuration := Some 90\<rparr>" 86400000 initial]
        partial_completion_migrates
          [of "partial_report_example\<lparr>remainingMinutes := Some 0\<rparr>" 86400000 initial]
  by (auto simp: partial_report_example_def initial_def utc_day_def)

section \<open>Conflict detection\<close>

lemma fold_check_event:
  "fold (check_event t) evs acc = acc @ map (conflict_entry t) (filter (overlaps t) evs)"
  by (induction evs arbitrary: acc) (simp_all add: check_event_def)

lemma fold_check_task:
  "fold (check_task evs) ts acc =
     acc @ concat (map (\<lambda>t. map (conflict_entry t) (filter (overlaps t) evs)) ts)"
  by (induction ts arbitrary: acc) (simp_all add: check_task_def fold_check_event)

text \<open>
  Claim C4 as stated fails. Two tasks of one candidate that overlap each other are not
  reported when the calendar has no event; and an entry carries the start and end of the
  calendar event, not the window in which task and event overlap (the lab overlaps the
  meeting from 3000 s to 5400 s; the entry says 3000 s to 9000 s).
\<close>

theorem detectConflicts_counterexample:
  "spec_interval_overlap seminar_example lab_example \<and>
   detectConflicts clashing_schedule [] = [] \<and>
   detectConflicts clashing_schedule [meeting_example] =
     [\<lparr>conflict_task = ''Seminar'', conflict_event = ''Meeting'',
       window_from = 3000000, window_to = 9000000\<rparr>,
      \<lparr>conflict_task = ''Lab'', conflict_event = ''Meeting'',
       window_from = 3000000, window_to = 9000000\<rparr>]"
  by (simp add: spec_interval_overlap_def detectConflicts_def check_task_def check_event_def
      overlaps_def conflict_entry_def clashing_schedule_def seminar_example_def lab_example_def
      meeting_example_def)

text \<open>
  Claim C4, amended. For a schedule with a well-formed date, \<open>detectConflicts\<close> compares
  every task with every calendar event, and with nothing else: the result has one entry
  for each pair of a task and an event that overlap, in the order of the tasks and, for
  one task, of the events. With all four times resolved, the pair overlaps exactly when
  \<open>newStart < existingEnd\<close> and \<open>newEnd > existingStart\<close>, and the entry carries the
  event's own start and end. With a date that is not a date the result is empty.
\<close>

theorem detectConflicts_reports_event_collisions:
  "detectConflicts newSchedule existingEvents =
     (case cs_date newSchedule of
        BadDate txt \<Rightarrow> []
      | Day d \<Rightarrow>
          concat (map (\<lambda>newTask. map (conflict_entry newTask)
                                    (filter (overlaps newTask) existingEvents))
                      (cs_tasks newSchedule))) \<and>
   (\<forall>newTask existingEvent newStart newEnd existingStart existingEnd.
      start newTask = Iso newStart \<and> t_end newTask = Iso newEnd \<and>
      ev_start existingEvent = Iso existingStart \<and> ev_end existingEvent = Iso existingEnd \<longrightarrow>
      (overlaps newTask existingEvent \<longleftrightarrow> newStart < existingEnd \<and> newEnd > existingStart) \<and>
      window_from (conflict_entry newTask existingEvent) = existingStart \<and>
      window_to (conflict_entry newTask existingEvent) = existingEnd)"
  by (auto simp: detectConflicts_def fold_check_task overlaps_def conflict_entry_def
      split: datestr.splits)

text \<open>Witness for C4: the two example tasks against the meeting and against a later
  copy of it.\<close>

theorem detectConflicts_reports_event_collisions_witness:
  "detectConflicts clashing_schedule [meeting_example, meeting_example\<lparr>ev_start := Iso 3600000\<rparr>] =
     [conflict_entry seminar_example meeting_example,
      conflict_entry lab_example meeting_example,
      conflict_entry lab_example (meeting_example\<lparr>ev_start := Iso 3600000\<rparr>)] \<and>
   overlaps lab_example meeting_example \<and>
   window_from (conflict_entry lab_example meeting_example) = 3000000 \<and>
   window_to (conflict_entry lab_example meeting_example) = 9000000"
proof -
  have "start lab_example = Iso 1800000 \<and> t_end lab_example = Iso 5400000 \<and>
        ev_start meeting_example = Iso 3000000 \<and> ev_end meeting_example = Iso 9000000"
    by (simp add: lab_example_def meeting_example_def)
  with detectConflicts_reports_event_collisions
         [of clashing_schedule "[meeting_example, meeting_example\<lparr>ev_start := Iso 3600000\<rparr>]"]
  have "detectConflicts clashing_schedule [meeting_example, meeting_example\<lparr>ev_start := Iso 3600000\<rparr>] =
          concat (map (\<lambda>newTask. map (conflict_entry newTask)
             (filter (overlaps newTask) [meeting_example, meeting_example\<lparr>ev_start := Iso 3600000\<rparr>]))
             (cs_tasks clashing_schedule))"
    and "overlaps lab_example meeting_example \<longleftrightarrow> (1800000::int) < 9000000 \<and> (5400000::int) > 3000000"
    and "window_from (conflict_entry lab_example meeting_example) = 3000000"
    and "window_to (conflict_entry lab_example meeting_example) = 9000000"
    by (simp_all add: clashing_schedule_def)
  moreover have "overlaps seminar_example meeting_example"
    "\<not> overlaps seminar_example (meeting_example\<lparr>ev_start := Iso 3600000\<rparr>)"
    "overlaps lab_example (meeting_example\<lparr>ev_start := Iso 3600000\<rparr>)"
    by (simp_all add: overlaps_def seminar_example_def lab_example_def meeting_example_def)
  ultimately show ?thesis by (simp add: clashing_schedule_def)
qed

section \<open>Scheduler service\<close>


subsection \<open>The collaborator fails\<close>




subsection \<open>The fallback packer\<close>



lemma length_insert_by_priority: "length (insert_by_priority a bs) = Suc (length bs)"
  by (induction bs) auto

lemma length_sort_by_priority: "length (sort_by_priority ts) = length ts"
  unfolding sort_by_priority_def by (induction ts) (simp_all add: length_insert_by_priority)







text \<open>
  Claim C2 says that a fixed task keeps the start and end it received from the
  normalizer. The fallback packer re-times every task: the lecture, fixed at 14:00 to
  15:30, comes out at 09:00 to 10:30, the start of the working hours.
\<close>

theorem fallback_moves_fixed_task:
  "fixed lecture_example \<and>
   (start lecture_example, t_end lecture_example) = (Iso 1728030600000, Iso 1728036000000) \<and>
   map_sum id (map (map (\<lambda>t. (task_id t, fixed t, start t, t_end t)) \<circ> tasks \<circ> schedule))
     (generateFallbackSchedule 330 userPreferences [lecture_example] (Day 20000) ''u1'' 0) =
   Inr [[(''course_0'', True, Iso 1728012600000, Iso 1728018000000)]]"
  by (simp add: generateFallbackSchedule_def sort_by_priority_def
      local_datetime_def userPreferences_def lecture_example_def)

subsection \<open>Priority scores of the normalizer\<close>

text \<open>
  Claim C8 says that the score of a flexible task is
  \<open>priority_weight(label) * 2 + deadline_urgency(due_date) + target_weight(targets)\<close> and
  that the higher label gets the strictly higher score. The normalizer copies the row's
  \<open>priority\<close> (or 75 when it is missing or zero): two rows that differ only in the labels
  \<open>high\<close> and \<open>low\<close> get these labels as scores, and \<open>high\<close> is not greater than \<open>low\<close>;
  a numeric priority of 0 gets 75, above a priority of 50; and rows as the sheet service
  builds them, with an array of targets, make the normalizer throw.
\<close>

theorem priority_score_copies_row_priority:
  "map_sum id (map priority_score)
     (normalizeTasks 0 [] [revision_row (PLabel High) (TText ''exam''),
                           revision_row (PLabel Low) (TText ''exam'')] []) =
     Inr [Label High, Label Low] \<and>
   js_greater (Label High) (Label Low) = False \<and>
   map_sum id (map priority_score)
     (normalizeTasks 0 [] [revision_row (PNum 50) (TText ''exam''),
                           revision_row (PNum 0) (TText ''exam'')] []) =
     Inr [Num 50, Num 75] \<and>
   normalizeTasks 0 [] [revision_row (PLabel High) (TArray [''exam'']),
                        revision_row (PLabel Low) (TArray [''exam''])] [] = Inl TypeError"
  by (simp add: normalizeTasks_def priority_task_def split_targets_def priority_or_75_def
      revision_row_def List.map_filter_def enumerate_eq_zip js_greater_def score_text_def
      label_text_def)

end
